theory Spec2Isabelle
  imports Main
begin

section \<open>The export script \<open>models/export.py\<close>\<close>

text \<open>
  The script resolves a checkpoint into a model (\<open>load_model\<close>), puts the model into its
  export configuration and runs three exporters, each inside its own
  \<^verbatim>\<open>try: ... except Exception as e:\<close>. Everything the script calls from torch, onnx,
  coremltools, sparseml and from the repository's own \<open>models\<close> and \<open>utils\<close> packages is a
  collaborator: its outcome is a parameter of the model (the record \<open>env\<close>), and every call
  is written to a trace of events, in the order the script makes them.
\<close>

subsection \<open>Python strings\<close>

text \<open>
  \<^verbatim>\<open>s.replace(old, new)\<close>: every occurrence of \<open>old\<close> in \<open>s\<close>, found from the left and not
  overlapping, is replaced by \<open>new\<close>. For an empty \<open>old\<close> Python puts \<open>new\<close> before every
  character and at the end.
\<close>

function replace_from :: "string \<Rightarrow> string \<Rightarrow> string \<Rightarrow> string" where
  "replace_from old new [] = []"
| "replace_from old new (c # cs) =
     (if old \<noteq> [] \<and> take (length old) (c # cs) = old
      then new @ replace_from old new (drop (length old) (c # cs))
      else c # replace_from old new cs)"
  by pat_completeness auto
termination
  by (relation "measure (\<lambda>(old, new, s). length s)") auto

definition replace :: "string \<Rightarrow> string \<Rightarrow> string \<Rightarrow> string" where
  "replace s old new =
     (if old = [] then new @ concat (map (\<lambda>c. c # new) s) else replace_from old new s)"

text \<open>\<^verbatim>\<open>s.split(sep)\<close> for a one-character separator, and \<^verbatim>\<open>sep.join(parts)\<close>.\<close>

fun split :: "string \<Rightarrow> char \<Rightarrow> string list" where
  "split [] d = [[]]"
| "split (c # cs) d =
     (let r = split cs d in if c = d then [] # r else (c # hd r) # tl r)"

fun join :: "string \<Rightarrow> string list \<Rightarrow> string" where
  "join sep [] = []"
| "join sep [x] = x"
| "join sep (x # y # ys) = x @ sep @ join sep (y # ys)"

subsection \<open>Options and errors\<close>

text \<open>
  The parsed command line. \<open>cfg\<close> defaults to the empty string and \<open>sparseml_recipe\<close> to
  \<open>None\<close>; Python's truth test takes both \<open>None\<close> and the empty string for false.
\<close>

record opt =
  weights :: string
  img_size :: "int list"
  batch_size :: int
  dynamic :: bool
  grid :: bool
  device :: string
  cfg :: string
  sparseml_recipe :: "string option"

definition truthy :: "string option \<Rightarrow> bool" where
  "truthy r = (case r of None \<Rightarrow> False | Some s \<Rightarrow> s \<noteq> [])"

text \<open>
  Exceptions. \<open>ValueError\<close> is what the script raises itself (the specification calls it
  \<open>ConfigurationError\<close>); \<open>WeightMismatchError\<close> is the failure of the strict weight load;
  \<open>Raised\<close> is an \<open>Exception\<close> raised inside a collaborator, with its message. All of them are
  instances of \<open>Exception\<close>, the class the script's handlers catch.
\<close>

datatype error =
    ValueError string
  | KeyError string
  | AttributeError string
  | IndexError string
  | NameError string
  | WeightMismatchError
  | Raised string

fun str :: "error \<Rightarrow> string" where
  "str (ValueError m) = m"
| "str (KeyError k) = [CHR 0x27] @ k @ [CHR 0x27]"
| "str (AttributeError m) = m"
| "str (IndexError m) = m"
| "str (NameError n) = ''name '' @ [CHR 0x27] @ n @ [CHR 0x27] @ '' is not defined''"
| "str WeightMismatchError = ''Error(s) in loading state_dict''"
| "str (Raised m) = m"

subsection \<open>Image size\<close>

text \<open>
  \<^verbatim>\<open>opt.img_size *= 2 if len(opt.img_size) == 1 else 1\<close>: the list is repeated twice when it
  has one element and once otherwise.
\<close>

definition expand :: "int list \<Rightarrow> int list" where
  "expand xs = concat (replicate (if length xs = 1 then 2 else 1) xs)"

subsection \<open>Checkpoints, recipes and the trace\<close>

text \<open>
  A state dict maps parameter names to tensors, in order; of a tensor the model keeps the
  shape and the data. \<^verbatim>\<open>ckpt['model']\<close> is either a pickled module or anything else, which
  the script then takes for a state dict.
\<close>

type_synonym 't state_dict = "(string \<times> nat list \<times> 't) list"

datatype ('m, 't) payload = Pickled 'm | Raw "'t state_dict"

type_synonym ('m, 't) checkpoint = "string \<rightharpoonup> ('m, 't) payload"

fun is_Module :: "('m, 't) payload \<Rightarrow> bool" where
  "is_Module (Pickled m) = True"
| "is_Module (Raw sd) = False"

text \<open>The argument of \<^verbatim>\<open>Model(...)\<close>: a path to a yaml file or a parsed yaml.\<close>

datatype 'y cfg_arg = Path string | Yaml 'y

text \<open>
  The recipe manager, as far as the script touches it: its quantization modifiers, each with
  the flag the script sets.
\<close>

record quant_mod =
  enable_on_initialize :: bool

record manager =
  recipe :: string
  quantization_modifiers :: "quant_mod list"

text \<open>
  What the script prints, as values: the line that starts a backend (with the version of its
  package), the success line (with the file saved), the failure line (with the text of the
  exception) and the closing line.
\<close>

datatype backend = TorchScript | ONNX | CoreML

datatype message =
    Starting backend string
  | Export_success backend string
  | Export_failure backend string
  | Export_complete

text \<open>The arguments of \<^verbatim>\<open>torch.onnx.export\<close> that the script chooses.\<close>

record onnx_args =
  filename :: string
  verbose :: bool
  opset_version :: nat
  input_names :: "string list"
  output_names :: "string list"
  dynamic_axes :: "(string \<times> (nat \<times> string) list) list option"

datatype event =
    Download string
  | Torch_load string
  | Attempt_load string
  | Model_construct
  | From_yaml string
  | Manager_initialize manager
  | Load_state_dict bool
  | Model_float
  | Select_device string
  | Check_img_size int int
  | Zeros "int list"
  | Dry_run
  | Print message
  | Jit_trace
  | Ts_save string
  | Import_onnx
  | Onnx_export onnx_args
  | Module_exporter string
  | Exporter_export_onnx
  | Skip_onnx_input_quantize string string
  | Onnx_load string
  | Check_model
  | Import_coremltools
  | Image_type
  | Ct_convert
  | Mlmodel_save string

text \<open>
  A computation of the script: the events so far and either the exception that ended it or
  its value. \<open>bind\<close> is sequencing: an exception ends the rest.
\<close>

type_synonym 'a run = "event list \<times> (error + 'a)"

definition ret :: "'a \<Rightarrow> 'a run" where
  "ret x = ([], Inr x)"

definition raise :: "error \<Rightarrow> 'a run" where
  "raise e = ([], Inl e)"

definition call :: "event \<Rightarrow> error + 'a \<Rightarrow> 'a run" where
  "call ev outcome = ([ev], outcome)"

definition bind :: "'a run \<Rightarrow> ('a \<Rightarrow> 'b run) \<Rightarrow> 'b run" where
  "bind r k =
     (case r of
        (t, Inl e) \<Rightarrow> (t, Inl e)
      | (t, Inr x) \<Rightarrow> (case k x of (t', r') \<Rightarrow> (t @ t', r')))"

text \<open>\<^verbatim>\<open>d[key]\<close> on a dict.\<close>

definition subscript :: "(string \<rightharpoonup> 'a) \<Rightarrow> string \<Rightarrow> 'a run" where
  "subscript d k = (case d k of None \<Rightarrow> raise (KeyError k) | Some v \<Rightarrow> ret v)"

subsection \<open>\<open>load_model\<close>\<close>

text \<open>
  The collaborators of \<open>load_model\<close>. \<open>state_dict\<close>, \<open>yaml\<close> and \<open>float\<close> are the attribute
  and the two methods of a module that the script uses; \<open>load_state_dict\<close> takes the flag
  \<open>strict\<close> last.
\<close>

record ('m, 't, 'y, 'd) env =
  attempt_download :: "string \<Rightarrow> error + unit"
  torch_load :: "string \<Rightarrow> 'd \<Rightarrow> error + ('m, 't) checkpoint"
  attempt_load :: "string \<Rightarrow> 'd \<Rightarrow> error + 'm"
  Model :: "'y cfg_arg \<Rightarrow> error + 'm"
  state_dict :: "'m \<Rightarrow> 't state_dict"
  yaml :: "'m \<Rightarrow> 'y"
  float :: "'m \<Rightarrow> 'm"
  from_yaml :: "string \<Rightarrow> error + manager"
  initialize :: "manager \<Rightarrow> 'm \<Rightarrow> error + 'm"
  load_state_dict :: "'m \<Rightarrow> 't state_dict \<Rightarrow> bool \<Rightarrow> error + 'm"

text \<open>
  Lines 30 to 42: the checkpoint is downloaded and deserialized, then classified; the result is
  the model to load into and the state dict to load.
\<close>

definition resolve ::
  "('m, 't, 'y, 'd, 'z) env_scheme \<Rightarrow> 'o opt_scheme \<Rightarrow> 'd \<Rightarrow> ('m \<times> 't state_dict) run" where
  "resolve E opt dev =
     bind (call (Download (weights opt)) (attempt_download E (weights opt))) (\<lambda>_.
     bind (call (Torch_load (weights opt)) (torch_load E (weights opt) dev)) (\<lambda>ckpt.
     bind (subscript ckpt ''model'') (\<lambda>ckpt_model.
       let is_picked_model = is_Module ckpt_model in
       if \<not> is_picked_model \<and> cfg opt = [] then
         raise (ValueError (weights opt @
           '' does not load a Module object and no Model cfg given to load into a Module''))
       else if is_picked_model \<and> cfg opt = [] then
         bind (call (Attempt_load (weights opt)) (attempt_load E (weights opt) dev)) (\<lambda>model.
         ret (model, state_dict E model))
       else
         bind (if cfg opt \<noteq> [] then ret (Path (cfg opt))
               else (case ckpt_model of
                       Pickled m \<Rightarrow> ret (Yaml (yaml E m))
                     | Raw sd \<Rightarrow> raise (AttributeError ''yaml''))) (\<lambda>arg.
         bind (call Model_construct (Model E arg)) (\<lambda>model.
         ret (model, case ckpt_model of
                       Pickled m \<Rightarrow> state_dict E (float E m)
                     | Raw sd \<Rightarrow> sd))))))"

text \<open>Lines 45 to 51: the recipe, when one is configured.\<close>

definition sparsify ::
  "('m, 't, 'y, 'd, 'z) env_scheme \<Rightarrow> 'o opt_scheme \<Rightarrow> 'm \<Rightarrow> 'm run" where
  "sparsify E opt model =
     (case sparseml_recipe opt of
        None \<Rightarrow> ret model
      | Some path \<Rightarrow>
          if path = [] then ret model
          else if grid opt \<or> dynamic opt then
            raise (ValueError
              ''--grid and --dynamic not supported for exports with sparsification'')
          else
            bind (call (From_yaml path) (from_yaml E path)) (\<lambda>manager.
            let manager = manager\<lparr>quantization_modifiers :=
                  map (\<lambda>quant_mod. quant_mod\<lparr>enable_on_initialize := True\<rparr>)
                    (quantization_modifiers manager)\<rparr> in
            call (Manager_initialize manager) (initialize E manager model)))"

text \<open>Lines 49 to 50 on their own: the manager with the flag set on every quantization modifier.\<close>

definition enable_all :: "manager \<Rightarrow> manager" where
  "enable_all manager =
     manager\<lparr>quantization_modifiers :=
       map (\<lambda>quant_mod. quant_mod\<lparr>enable_on_initialize := True\<rparr>)
         (quantization_modifiers manager)\<rparr>"

text \<open>Lines 53 to 55: the strict load and the cast.\<close>

definition load_weights ::
  "('m, 't, 'y, 'd, 'z) env_scheme \<Rightarrow> 'm \<Rightarrow> 't state_dict \<Rightarrow> 'm run" where
  "load_weights E model sd =
     bind (call (Load_state_dict True) (load_state_dict E model sd True)) (\<lambda>model.
     call Model_float (Inr (float E model)))"

definition load_model ::
  "('m, 't, 'y, 'd, 'z) env_scheme \<Rightarrow> 'o opt_scheme \<Rightarrow> 'd \<Rightarrow> 'm run" where
  "load_model E opt dev =
     bind (resolve E opt dev) (\<lambda>(model, sd).
     bind (sparsify E opt model) (\<lambda>model.
     load_weights E model sd))"

subsection \<open>The module tree and the export configuration\<close>

text \<open>
  A module of the model: its class, its \<^verbatim>\<open>_non_persistent_buffers_set\<close>, its attribute
  \<^verbatim>\<open>export\<close> (\<open>None\<close> when the module has none), everything else it holds (parameters,
  buffers, other attributes) and its named submodules. Of the class the script asks whether
  it is \<^verbatim>\<open>models.common.Conv\<close> and, for a \<open>Conv\<close>, what its \<^verbatim>\<open>act\<close> is: \<^verbatim>\<open>nn.Hardswish\<close>,
  \<^verbatim>\<open>nn.SiLU\<close>, the two classes of \<^verbatim>\<open>utils.activations\<close>, or another activation. In torch the
  activation is a submodule of its \<open>Conv\<close>; here it is a value kept with the class, and
  \<open>children\<close> lists the other submodules.
\<close>

datatype activation =
    NN_Hardswish
  | NN_SiLU
  | Hardswish
  | SiLU
  | Other_activation string

datatype module_class = Conv activation | Other_class string

datatype 'a module =
  Module (cls: module_class)
         (non_persistent_buffers_set: "string set")
         (export: "bool option")
         (attrs: 'a)
         (children: "(string \<times> 'a module) list")

text \<open>Lines 89 to 93, on the class of one module.\<close>

fun assign_activation :: "module_class \<Rightarrow> module_class" where
  "assign_activation (Conv act) =
     (if act = NN_Hardswish then Conv Hardswish
      else if act = NN_SiLU then Conv SiLU
      else Conv act)"
| "assign_activation (Other_class c) = Other_class c"

text \<open>
  Lines 87 to 93: the loop over \<^verbatim>\<open>model.named_modules()\<close>, which yields the model itself and
  every module below it. The body changes the module it is given and no other, so the loop is
  the body applied at every node of the tree.
\<close>

primrec update_modules :: "'a module \<Rightarrow> 'a module" where
  "update_modules (Module c b e a ch) =
     Module (assign_activation c) {} e a (map (map_prod id update_modules) ch)"

text \<open>\<^verbatim>\<open>m.name\<close> for a submodule, and the assignment \<^verbatim>\<open>m.name = v\<close> to an existing one.\<close>

definition getattr :: "'a module \<Rightarrow> string \<Rightarrow> error + 'a module" where
  "getattr m n =
     (case map_of (children m) n of None \<Rightarrow> Inl (AttributeError n) | Some c \<Rightarrow> Inr c)"

fun assign_child ::
  "string \<Rightarrow> 'a module \<Rightarrow> (string \<times> 'a module) list \<Rightarrow> (string \<times> 'a module) list" where
  "assign_child n v [] = []"
| "assign_child n v ((k, c) # r) =
     (if k = n then (k, v) # r else (k, c) # assign_child n v r)"

fun set_export :: "bool \<Rightarrow> 'a module \<Rightarrow> 'a module" where
  "set_export v (Module c b e a ch) = Module c b (Some v) a ch"

text \<open>\<^verbatim>\<open>seq[-1].export = v\<close>: an empty \<open>Sequential\<close> has no last module.\<close>

definition set_last_export :: "bool \<Rightarrow> 'a module \<Rightarrow> error + 'a module" where
  "set_last_export v seq =
     (case seq of Module c b e a ch \<Rightarrow>
        if ch = [] then Inl (IndexError ''index out of range'')
        else Inr (Module c b e a
                    (butlast ch @ [(fst (last ch), set_export v (snd (last ch)))])))"

text \<open>Lines 87 to 96.\<close>

definition update_model :: "bool \<Rightarrow> 'a module \<Rightarrow> error + 'a module" where
  "update_model g model0 =
     (let model = update_modules model0 in
      case getattr model ''model'' of
        Inl e \<Rightarrow> Inl e
      | Inr seq \<Rightarrow>
          (case set_last_export (\<not> g) seq of
             Inl e \<Rightarrow> Inl e
           | Inr seq' \<Rightarrow>
               Inr (Module (cls model) (non_persistent_buffers_set model) (export model)
                      (attrs model) (assign_child ''model'' seq' (children model)))))"

text \<open>
  Addressing a module by the positions of its ancestors among their siblings, and the
  address of \<^verbatim>\<open>model.model[-1]\<close>, when the model has such a module.
\<close>

fun node_at :: "'a module \<Rightarrow> nat list \<Rightarrow> 'a module option" where
  "node_at m [] = Some m"
| "node_at m (i # p) =
     (if i < length (children m) then node_at (snd (children m ! i)) p else None)"

fun position :: "string \<Rightarrow> (string \<times> 'b) list \<Rightarrow> nat" where
  "position n [] = 0"
| "position n ((k, c) # r) = (if k = n then 0 else Suc (position n r))"

definition terminal :: "'a module \<Rightarrow> nat list option" where
  "terminal model =
     (let ch = children model; i = position ''model'' ch in
      if i < length ch \<and> children (snd (ch ! i)) \<noteq> []
      then Some [i, length (children (snd (ch ! i))) - 1]
      else None)"

text \<open>
  Two modules that differ at most in their submodules' contents and in \<open>export\<close>, which in
  the second is \<open>e\<close>.
\<close>

definition same_but_export :: "bool option \<Rightarrow> 'a module \<Rightarrow> 'a module \<Rightarrow> bool" where
  "same_but_export e n n' \<longleftrightarrow>
     cls n' = cls n \<and> non_persistent_buffers_set n' = non_persistent_buffers_set n
     \<and> attrs n' = attrs n \<and> map fst (children n') = map fst (children n) \<and> export n' = e"

subsection \<open>The exporters\<close>

text \<open>
  What the dry run \<^verbatim>\<open>y = model(img)\<close> returned, as far as the script looks at it (it asks
  only whether \<^verbatim>\<open>y is None\<close>).
\<close>

datatype dry_output = None_value | Single_tensor | Classes_boxes_pair

text \<open>
  The collaborators of the rest of the script. The sample input \<open>img\<close> is a tensor of zeros, so
  its shape stands for it. \<open>names\<close> is the read of \<^verbatim>\<open>model.names\<close>, an \<open>AttributeError\<close> on
  a model without it; \<open>max_stride\<close> is \<^verbatim>\<open>int(max(model.stride))\<close>; \<open>import_onnx\<close> and
  \<open>import_coremltools\<close> give the package's version when the import succeeds.
\<close>

record ('a, 't, 'y, 'd, 'ts) export_env = "('a module, 't, 'y, 'd) env" +
  select_device :: "string \<Rightarrow> error + 'd"
  names :: "'a module \<Rightarrow> error + string list"
  max_stride :: "'a module \<Rightarrow> error + int"
  check_img_size :: "int \<Rightarrow> int \<Rightarrow> error + int"
  zeros :: "int list \<Rightarrow> 'd \<Rightarrow> error + unit"
  forward :: "'a module \<Rightarrow> int list \<Rightarrow> error + dry_output"
  torch_version :: string
  jit_trace :: "'a module \<Rightarrow> int list \<Rightarrow> error + 'ts"
  ts_save :: "'ts \<Rightarrow> string \<Rightarrow> error + unit"
  import_onnx :: "error + string"
  onnx_export :: "'a module \<Rightarrow> int list \<Rightarrow> onnx_args \<Rightarrow> error + unit"
  module_exporter :: "'a module \<Rightarrow> string \<Rightarrow> error + unit"
  export_onnx :: "'a module \<Rightarrow> string \<Rightarrow> int list \<Rightarrow> error + unit"
  skip_onnx_input_quantize :: "string \<Rightarrow> string \<Rightarrow> error + unit"
  onnx_load :: "string \<Rightarrow> error + unit"
  check_model :: "string \<Rightarrow> error + unit"
  import_coremltools :: "error + string"
  image_type :: "int list \<Rightarrow> error + unit"
  ct_convert :: "'ts \<Rightarrow> int list \<Rightarrow> error + unit"
  mlmodel_save :: "string \<Rightarrow> error + unit"

definition print :: "message \<Rightarrow> unit run" where
  "print m = call (Print m) (Inr ())"

text \<open>
  \<^verbatim>\<open>try: body except Exception as e: handler\<close>. Every \<open>error\<close> is an \<open>Exception\<close>, so the
  handler takes whatever the body raises; what the statement raises is what its handler does.
\<close>

definition try_except :: "unit run \<Rightarrow> (error \<Rightarrow> unit run) \<Rightarrow> unit run" where
  "try_except body handler =
     (case body of
        (t, Inl e) \<Rightarrow> bind (t, Inr ()) (\<lambda>_. handler e)
      | (t, Inr u) \<Rightarrow> (t, Inr u))"

text \<open>
  Lines 100 to 107. The name \<open>ts\<close> is assigned by \<^verbatim>\<open>ts = torch.jit.trace(...)\<close>, the only
  statement of the body before which nothing can fail: after the block the name is bound
  exactly when the trace returned (\<open>traced\<close>).
\<close>

definition torchscript_body ::
  "('a, 't, 'y, 'd, 'ts, 'z) export_env_scheme \<Rightarrow> 'o opt_scheme \<Rightarrow> 'a module \<Rightarrow> int list
     \<Rightarrow> unit run" where
  "torchscript_body E opt model img =
     bind (print (Starting TorchScript (torch_version E))) (\<lambda>_.
     let file = replace (weights opt) ''.pt'' ''.torchscript.pt'' in
     bind (call Jit_trace (jit_trace E model img)) (\<lambda>ts.
     bind (call (Ts_save file) (ts_save E ts file)) (\<lambda>_.
     print (Export_success TorchScript file))))"

definition torchscript_export ::
  "('a, 't, 'y, 'd, 'ts, 'z) export_env_scheme \<Rightarrow> 'o opt_scheme \<Rightarrow> 'a module \<Rightarrow> int list
     \<Rightarrow> unit run" where
  "torchscript_export E opt model img =
     try_except (torchscript_body E opt model img)
       (\<lambda>e. print (Export_failure TorchScript (str e)))"

definition traced ::
  "('a, 't, 'y, 'd, 'ts, 'z) export_env_scheme \<Rightarrow> 'a module \<Rightarrow> int list \<Rightarrow> 'ts option" where
  "traced E model img = (case jit_trace E model img of Inl e \<Rightarrow> None | Inr ts \<Rightarrow> Some ts)"

text \<open>Lines 116 to 119: the arguments of the standard ONNX export.\<close>

definition standard_args :: "'o opt_scheme \<Rightarrow> string \<Rightarrow> dry_output \<Rightarrow> onnx_args" where
  "standard_args opt file y =
     \<lparr>filename = file, verbose = False, opset_version = 12,
      input_names = [''images''],
      output_names = (if y = None_value then [''classes'', ''boxes''] else [''output'']),
      dynamic_axes =
        (if dynamic opt
         then Some [(''images'', [(0, ''batch''), (2, ''height''), (3, ''width'')]),
                    (''output'', [(0, ''batch''), (2, ''y''), (3, ''x'')])]
         else None)\<rparr>"

text \<open>Lines 110 to 136.\<close>

definition onnx_body ::
  "('a, 't, 'y, 'd, 'ts, 'z) export_env_scheme \<Rightarrow> 'o opt_scheme \<Rightarrow> 'a module \<Rightarrow> int list
     \<Rightarrow> dry_output \<Rightarrow> unit run" where
  "onnx_body E opt model img y =
     bind (call Import_onnx (import_onnx E)) (\<lambda>version.
     bind (print (Starting ONNX version)) (\<lambda>_.
     let file = replace (weights opt) ''.pt'' ''.onnx'' in
     bind (if \<not> truthy (sparseml_recipe opt) then
             call (Onnx_export (standard_args opt file y))
               (onnx_export E model img (standard_args opt file y))
           else
             let save_dir = join ''/'' (butlast (split file (CHR ''/'')));
                 save_name = last (split file (CHR ''/'')) in
             bind (call (Module_exporter save_dir) (module_exporter E model save_dir)) (\<lambda>_.
             bind (call Exporter_export_onnx (export_onnx E model save_dir img)) (\<lambda>_.
             try_except
               (call (Skip_onnx_input_quantize file file) (skip_onnx_input_quantize E file file))
               (\<lambda>e. ret ())))) (\<lambda>_.
     bind (call (Onnx_load file) (onnx_load E file)) (\<lambda>_.
     bind (call Check_model (check_model E file)) (\<lambda>_.
     print (Export_success ONNX file))))))"

definition onnx_export_block ::
  "('a, 't, 'y, 'd, 'ts, 'z) export_env_scheme \<Rightarrow> 'o opt_scheme \<Rightarrow> 'a module \<Rightarrow> int list
     \<Rightarrow> dry_output \<Rightarrow> unit run" where
  "onnx_export_block E opt model img y =
     try_except (onnx_body E opt model img y) (\<lambda>e. print (Export_failure ONNX (str e)))"

text \<open>
  Lines 139 to 149. In \<^verbatim>\<open>ct.convert(ts, inputs=[ct.ImageType(...)])\<close> Python evaluates the
  name \<open>ts\<close> before the keyword argument and before the call: an unbound \<open>ts\<close> is a
  \<open>NameError\<close> there.
\<close>

definition coreml_body ::
  "('a, 't, 'y, 'd, 'ts, 'z) export_env_scheme \<Rightarrow> 'o opt_scheme \<Rightarrow> int list \<Rightarrow> 'ts option
     \<Rightarrow> unit run" where
  "coreml_body E opt img ts_var =
     bind (call Import_coremltools (import_coremltools E)) (\<lambda>version.
     bind (print (Starting CoreML version)) (\<lambda>_.
     bind (case ts_var of None \<Rightarrow> raise (NameError ''ts'') | Some ts \<Rightarrow> ret ts) (\<lambda>ts.
     bind (call Image_type (image_type E img)) (\<lambda>_.
     bind (call Ct_convert (ct_convert E ts img)) (\<lambda>_.
     let file = replace (weights opt) ''.pt'' ''.mlmodel'' in
     bind (call (Mlmodel_save file) (mlmodel_save E file)) (\<lambda>_.
     print (Export_success CoreML file)))))))"

definition coreml_export ::
  "('a, 't, 'y, 'd, 'ts, 'z) export_env_scheme \<Rightarrow> 'o opt_scheme \<Rightarrow> int list \<Rightarrow> 'ts option
     \<Rightarrow> unit run" where
  "coreml_export E opt img ts_var =
     try_except (coreml_body E opt img ts_var) (\<lambda>e. print (Export_failure CoreML (str e)))"

text \<open>Lines 100 to 149: the three blocks, one after the other.\<close>

definition export_sequence ::
  "('a, 't, 'y, 'd, 'ts, 'z) export_env_scheme \<Rightarrow> 'o opt_scheme \<Rightarrow> 'a module \<Rightarrow> int list
     \<Rightarrow> dry_output \<Rightarrow> unit run" where
  "export_sequence E opt model img y =
     bind (torchscript_export E opt model img) (\<lambda>_.
     bind (onnx_export_block E opt model img y) (\<lambda>_.
     coreml_export E opt img (traced E model img)))"

text \<open>
  The outcomes the script reports: the backend of every success or failure line it printed,
  with the line's kind (\<open>True\<close> for success) and what the line carries.
\<close>

fun outcome :: "event \<Rightarrow> (backend \<times> bool \<times> string) option" where
  "outcome (Print (Export_success b file)) = Some (b, True, file)"
| "outcome (Print (Export_failure b e)) = Some (b, False, e)"
| "outcome ev = None"

definition results :: "event list \<Rightarrow> (backend \<times> bool \<times> string) list" where
  "results t = List.map_filter outcome t"

subsection \<open>The script\<close>

text \<open>
  Line 81: \<^verbatim>\<open>[check_img_size(x, gs) for x in opt.img_size]\<close>, one call for every entry of the
  list, from the left.
\<close>

fun verify_sizes :: "(int \<Rightarrow> int \<Rightarrow> error + int) \<Rightarrow> int \<Rightarrow> int list \<Rightarrow> int list run" where
  "verify_sizes chk gs [] = ret []"
| "verify_sizes chk gs (x # xs) =
     bind (call (Check_img_size x gs) (chk x gs)) (\<lambda>v.
     bind (verify_sizes chk gs xs) (\<lambda>vs.
     ret (v # vs)))"

text \<open>
  Lines 69 to 152, without \<^verbatim>\<open>print(opt)\<close>, \<^verbatim>\<open>set_logging()\<close> and the clock. An exception
  before the exporters ends the script.
\<close>

definition main ::
  "('a, 't, 'y, 'd, 'ts, 'z) export_env_scheme \<Rightarrow> 'o opt_scheme \<Rightarrow> unit run" where
  "main E opt0 =
     (let opt = opt0\<lparr>img_size := expand (img_size opt0)\<rparr> in
      bind (call (Select_device (device opt)) (select_device E (device opt))) (\<lambda>dev.
      bind (load_model E opt dev) (\<lambda>model.
      bind ([], names E model) (\<lambda>labels.
      bind ([], max_stride E model) (\<lambda>gs.
      bind (verify_sizes (check_img_size E) gs (img_size opt)) (\<lambda>sizes.
      let opt = opt\<lparr>img_size := sizes\<rparr>;
          img = batch_size opt # 3 # img_size opt in
      bind (call (Zeros img) (zeros E img dev)) (\<lambda>_.
      bind ([], update_model (grid opt) model) (\<lambda>model.
      bind (call Dry_run (forward E model img)) (\<lambda>y.
      bind (export_sequence E opt model img y) (\<lambda>_.
      print Export_complete))))))))))"

text \<open>Lines 84 to 152 on their own: what the script does with the checked sizes.\<close>

definition after_sizes ::
  "('a, 't, 'y, 'd, 'ts, 'z) export_env_scheme \<Rightarrow> 'o opt_scheme \<Rightarrow> 'd \<Rightarrow> 'a module
     \<Rightarrow> int list \<Rightarrow> unit run" where
  "after_sizes E opt dev model sizes =
     bind (call (Zeros (batch_size opt # 3 # sizes)) (zeros E (batch_size opt # 3 # sizes) dev))
       (\<lambda>_.
     bind ([], update_model (grid opt) model) (\<lambda>model.
     bind (call Dry_run (forward E model (batch_size opt # 3 # sizes))) (\<lambda>y.
     bind (export_sequence E (opt\<lparr>img_size := sizes\<rparr>) model
             (batch_size opt # 3 # sizes) y) (\<lambda>_.
     print Export_complete))))"

subsection \<open>The strict weight load\<close>

text \<open>
  Modelled from the spec: \<^verbatim>\<open>load_state_dict(state_dict, strict=True)\<close> is a method the model
  inherits from torch's \<open>nn.Module\<close>, which is not under src/. Section 4.1, step 5: every
  parameter name of the target model must be present with matching shape in the weight mapping,
  or the operation fails with \<open>WeightMismatchError\<close>. \<open>params\<close> gives the names and shapes of
  the target model's parameters, \<open>assign\<close> the model with the mapping loaded.
\<close>

definition strict_load_state_dict ::
  "('m \<Rightarrow> 't state_dict) \<Rightarrow> ('m \<Rightarrow> 't state_dict \<Rightarrow> 'm) \<Rightarrow> 'm \<Rightarrow> 't state_dict \<Rightarrow> bool
     \<Rightarrow> error + 'm" where
  "strict_load_state_dict params assign model sd strict =
     (if strict \<and>
         list_ex (\<lambda>(n, shape, v).
                    case map_of sd n of
                      None \<Rightarrow> True
                    | Some (shape', v') \<Rightarrow> shape' \<noteq> shape)
                 (params model)
      then Inl WeightMismatchError
      else Inr (assign model sd))"

text \<open>The events of the recipe: reading it and applying it to the model.\<close>

fun recipe_event :: "event \<Rightarrow> bool" where
  "recipe_event (From_yaml path) = True"
| "recipe_event (Manager_initialize m) = True"
| "recipe_event ev = False"

subsection \<open>A sample run\<close>

text \<open>
  A packaged checkpoint \<open>yolov3.pt\<close> whose model has two \<open>Conv\<close> layers and a \<open>Detect\<close> head,
  on a machine where every collaborator succeeds except the import of coremltools.
\<close>

definition sample_opt :: opt where
  "sample_opt =
     \<lparr>weights = ''yolov3.pt'', img_size = [640, 640], batch_size = 1, dynamic = False,
      grid = False, device = ''cpu'', cfg = [], sparseml_recipe = None\<rparr>"

definition sample_model :: "unit module" where
  "sample_model =
     Module (Other_class ''Model'') {''anchors''} None ()
       [(''model'',
         Module (Other_class ''Sequential'') {} None ()
           [(''0'', Module (Conv NN_Hardswish) {''mask''} None () []),
            (''1'', Module (Conv (Other_activation ''LeakyReLU'')) {} None () []),
            (''2'', Module (Other_class ''Detect'') {} (Some False) () [])])]"

definition sample_env :: "(unit, unit, unit, string, unit) export_env" where
  "sample_env =
     \<lparr>attempt_download = (\<lambda>w. Inr ()),
      torch_load = (\<lambda>w d. Inr [''model'' \<mapsto> Pickled sample_model]),
      attempt_load = (\<lambda>w d. Inr sample_model),
      Model = (\<lambda>c. Inr sample_model),
      state_dict = (\<lambda>m. [(''model.0.conv.weight'', [16, 3, 3, 3], ()),
                          (''model.1.conv.weight'', [32, 16, 3, 3], ())]),
      yaml = (\<lambda>m. ()),
      float = (\<lambda>m. m),
      from_yaml = (\<lambda>p. Inr \<lparr>recipe = p,
                               quantization_modifiers = [\<lparr>enable_on_initialize = False\<rparr>]\<rparr>),
      initialize = (\<lambda>mgr m. Inr m),
      load_state_dict = (\<lambda>m sd strict. Inr m),
      select_device = (\<lambda>s. Inr s),
      names = (\<lambda>m. Inr [''person'', ''bicycle'', ''car'']),
      max_stride = (\<lambda>m. Inr 32),
      check_img_size = (\<lambda>x gs. Inr x),
      zeros = (\<lambda>shape d. Inr ()),
      forward = (\<lambda>m img. Inr Single_tensor),
      torch_version = ''1.7.0'',
      jit_trace = (\<lambda>m img. Inr ()),
      ts_save = (\<lambda>ts file. Inr ()),
      import_onnx = Inr ''1.8.0'',
      onnx_export = (\<lambda>m img a. Inr ()),
      module_exporter = (\<lambda>m dir. Inr ()),
      export_onnx = (\<lambda>m dir img. Inr ()),
      skip_onnx_input_quantize = (\<lambda>src dst. Inr ()),
      onnx_load = (\<lambda>file. Inr ()),
      check_model = (\<lambda>file. Inr ()),
      import_coremltools = Inl (Raised ''No module named coremltools''),
      image_type = (\<lambda>img. Inr ()),
      ct_convert = (\<lambda>ts img. Inr ()),
      mlmodel_save = (\<lambda>file. Inr ())\<rparr>"

text \<open>
  The same machine with a checkpoint that holds raw weights for one of the model's two
  parameters, and with the strict load.
\<close>

definition raw_env :: "(unit, unit, unit, string, unit) export_env" where
  "raw_env = sample_env
     \<lparr>torch_load := (\<lambda>w d. Inr [''model'' \<mapsto> Raw [(''model.0.conv.weight'', [16, 3, 3, 3], ())]]),
      load_state_dict := strict_load_state_dict (state_dict sample_env) (\<lambda>m sd. m)\<rparr>"

lemmas sample_defs = sample_env_def sample_opt_def

lemmas load_defs = load_model_def resolve_def sparsify_def load_weights_def

lemmas export_defs = export_sequence_def torchscript_export_def torchscript_body_def
  onnx_export_block_def onnx_body_def coreml_export_def coreml_body_def traced_def
  try_except_def print_def standard_args_def truthy_def replace_def Let_def

section \<open>Properties\<close>

subsection \<open>Sequencing\<close>

lemma bind_ok: "snd r = Inr x \<Longrightarrow> bind r k = (fst r @ fst (k x), snd (k x))"
  by (cases r) (auto simp: bind_def split: prod.splits)

lemma bind_Inr: "bind (t, Inr x) k = (t @ fst (k x), snd (k x))"
  by (simp add: bind_def split: prod.splits)

lemma bind_Inl: "bind (t, Inl e) k = (t, Inl e)"
  by (simp add: bind_def)

lemma fst_bind_Cons: "fst (bind (ev # t, out) k) = ev # fst (bind (t, out) k)"
  by (cases out) (simp_all add: bind_def split: prod.splits)

lemma results_append: "results (a @ b) = results a @ results b"
  by (simp add: results_def List.map_filter_def)

lemma results_import [simp]:
  "results (Import_onnx # t) = results t"
  "results (Import_coremltools # t) = results t"
  by (simp_all add: results_def List.map_filter_simps)

subsection \<open>\<open>load_model\<close>: the order of its steps\<close>

lemmas run_defs = bind_def call_def ret_def raise_def subscript_def

text \<open>
  Claim C1, as stated, fails on the sample run with a recipe and \<open>dynamic\<close>: when the
  \<open>ValueError\<close> is raised the weights file has been downloaded, the checkpoint deserialized
  and the model built by \<open>attempt_load\<close>.
\<close>

theorem recipe_conflict_before_io_counterexample:
  "load_model sample_env
     (sample_opt\<lparr>sparseml_recipe := Some ''recipe.yaml'', dynamic := True\<rparr>) ''cpu''
   = ([Download ''yolov3.pt'', Torch_load ''yolov3.pt'', Attempt_load ''yolov3.pt''],
      Inl (ValueError ''--grid and --dynamic not supported for exports with sparsification''))"
  by (simp add: load_model_def resolve_def sparsify_def sample_env_def sample_opt_def run_defs)

lemma resolve_trace:
  "fst (resolve E opt dev) = [Download (weights opt)]
   \<or> fst (resolve E opt dev) = [Download (weights opt), Torch_load (weights opt)]
   \<or> fst (resolve E opt dev) =
        [Download (weights opt), Torch_load (weights opt), Attempt_load (weights opt)]
   \<or> fst (resolve E opt dev) =
        [Download (weights opt), Torch_load (weights opt), Model_construct]"
  unfolding resolve_def run_defs
  by (auto split: sum.splits prod.splits option.splits payload.splits simp: Let_def)

lemma resolve_ok_trace:
  assumes "resolve E opt dev = (t, Inr ms)"
  shows "t = [Download (weights opt), Torch_load (weights opt), Attempt_load (weights opt)]
       \<or> t = [Download (weights opt), Torch_load (weights opt), Model_construct]"
  using assms unfolding resolve_def run_defs
  by (auto split: sum.splits prod.splits option.splits payload.splits if_splits simp: Let_def)

lemma sparsify_conflict:
  assumes "truthy (sparseml_recipe opt)" and "grid opt \<or> dynamic opt"
  shows "sparsify E opt model =
     ([], Inl (ValueError ''--grid and --dynamic not supported for exports with sparsification''))"
  using assms by (auto simp: sparsify_def truthy_def raise_def split: option.splits)

text \<open>
  Claim C1, amended. With a recipe configured together with \<open>grid\<close> or \<open>dynamic\<close>,
  \<open>load_model\<close> ends with the \<open>ValueError\<close> of line 47 whenever the checkpoint resolves
  (if it does not, with the error of the resolution). The check comes after the download, the
  deserialization and the construction of the model (by \<open>attempt_load\<close> or by \<open>Model\<close>),
  and before the recipe is read or applied and before the weight load.
\<close>

theorem recipe_conflict_fails_after_resolve:
  assumes "truthy (sparseml_recipe opt)" and "grid opt \<or> dynamic opt"
  shows "load_model E opt dev =
           (case resolve E opt dev of
              (t, Inl e) \<Rightarrow> (t, Inl e)
            | (t, Inr ms) \<Rightarrow>
                (t, Inl (ValueError
                  ''--grid and --dynamic not supported for exports with sparsification'')))
       \<and> (\<forall>t ms. resolve E opt dev = (t, Inr ms) \<longrightarrow>
             take 2 t = [Download (weights opt), Torch_load (weights opt)]
           \<and> (t ! 2 = Attempt_load (weights opt) \<or> t ! 2 = Model_construct))
       \<and> (\<forall>ev \<in> set (fst (load_model E opt dev)).
             \<not> recipe_event ev \<and> ev \<noteq> Load_state_dict True)"
proof -
  have 1: "load_model E opt dev =
           (case resolve E opt dev of
              (t, Inl e) \<Rightarrow> (t, Inl e)
            | (t, Inr ms) \<Rightarrow>
                (t, Inl (ValueError
                  ''--grid and --dynamic not supported for exports with sparsification'')))"
    by (auto simp: load_model_def bind_def sparsify_conflict [OF assms]
          split: prod.splits sum.splits)
  have 2: "fst (load_model E opt dev) = fst (resolve E opt dev)"
    unfolding 1 by (auto split: prod.splits sum.splits)
  have 3: "\<forall>ev \<in> set (fst (load_model E opt dev)).
             \<not> recipe_event ev \<and> ev \<noteq> Load_state_dict True"
    unfolding 2 using resolve_trace [of E opt dev] by auto
  have 4: "\<forall>t ms. resolve E opt dev = (t, Inr ms) \<longrightarrow>
             take 2 t = [Download (weights opt), Torch_load (weights opt)]
           \<and> (t ! 2 = Attempt_load (weights opt) \<or> t ! 2 = Model_construct)"
    using resolve_ok_trace [of E opt dev] by fastforce
  from 1 3 4 show ?thesis by blast
qed

theorem recipe_conflict_fails_after_resolve_witness:
  "truthy (sparseml_recipe (sample_opt\<lparr>sparseml_recipe := Some ''recipe.yaml'', grid := True\<rparr>))
   \<and> load_model sample_env
        (sample_opt\<lparr>sparseml_recipe := Some ''recipe.yaml'', grid := True\<rparr>) ''cpu''
      = (fst (resolve sample_env
           (sample_opt\<lparr>sparseml_recipe := Some ''recipe.yaml'', grid := True\<rparr>) ''cpu''),
         Inl (ValueError
           ''--grid and --dynamic not supported for exports with sparsification''))
   \<and> fst (resolve sample_env
           (sample_opt\<lparr>sparseml_recipe := Some ''recipe.yaml'', grid := True\<rparr>) ''cpu'')
      = [Download ''yolov3.pt'', Torch_load ''yolov3.pt'', Attempt_load ''yolov3.pt'']"
  using recipe_conflict_fails_after_resolve
    [of "sample_opt\<lparr>sparseml_recipe := Some ''recipe.yaml'', grid := True\<rparr>"
        sample_env "''cpu''"]
  by (simp add: truthy_def resolve_def run_defs sample_defs)

text \<open>
  Claim C6, as stated, fails for a checkpoint that holds raw weights and has no entry
  \<open>model\<close> at all: line 32 ends in a \<open>KeyError\<close>, not in the \<open>ValueError\<close>.
\<close>

theorem checkpoint_without_model_entry_counterexample:
  "load_model
     (sample_env\<lparr>torch_load :=
        (\<lambda>w d. Inr [''state_dict'' \<mapsto> Raw [(''model.0.conv.weight'', [16, 3, 3, 3], ())]])\<rparr>)
     sample_opt ''cpu''
   = ([Download ''yolov3.pt'', Torch_load ''yolov3.pt''], Inl (KeyError ''model''))"
  by (simp add: load_model_def resolve_def run_defs sample_defs)

text \<open>
  Claim C6, amended. When the deserialized checkpoint has an entry \<open>model\<close> that is not a
  module and no \<open>cfg\<close> is given, \<open>load_model\<close> ends with the \<open>ValueError\<close> of line 35, whose
  message names the weights path, right after the deserialization: no model is loaded or
  constructed.
\<close>

theorem raw_checkpoint_without_cfg_fails:
  assumes "attempt_download E (weights opt) = Inr ()"
      and "torch_load E (weights opt) dev = Inr ckpt"
      and "ckpt ''model'' = Some (Raw sd)"
      and "cfg opt = []"
  shows "load_model E opt dev =
     ([Download (weights opt), Torch_load (weights opt)],
      Inl (ValueError (weights opt @
        '' does not load a Module object and no Model cfg given to load into a Module'')))"
  using assms by (simp add: load_model_def resolve_def run_defs)

theorem raw_checkpoint_without_cfg_fails_witness:
  "load_model (sample_env\<lparr>torch_load := (\<lambda>w d. Inr [''model'' \<mapsto> Raw []])\<rparr>)
     sample_opt ''cpu''
   = ([Download ''yolov3.pt'', Torch_load ''yolov3.pt''],
      Inl (ValueError
        ''yolov3.pt does not load a Module object and no Model cfg given to load into a Module''))"
  using raw_checkpoint_without_cfg_fails
    [of "sample_env\<lparr>torch_load := (\<lambda>w d. Inr [''model'' \<mapsto> Raw []])\<rparr>"
        sample_opt "''cpu''" "[''model'' \<mapsto> Raw []]" "[]"]
  by (simp add: sample_defs)

lemma sparsify_ok_value:
  assumes "truthy (sparseml_recipe opt)" and "sparsify E opt model = (t, Inr model')"
  shows "\<exists>path manager. sparseml_recipe opt = Some path
           \<and> from_yaml E path = Inr manager
           \<and> initialize E (enable_all manager) model = Inr model'
           \<and> t = [From_yaml path, Manager_initialize (enable_all manager)]"
  using assms unfolding sparsify_def truthy_def run_defs enable_all_def
  by (auto split: option.splits if_splits sum.splits prod.splits simp: Let_def)

lemma load_weights_value:
  "snd (load_weights E model sd) =
     (case load_state_dict E model sd True of
        Inl e \<Rightarrow> Inl e
      | Inr loaded \<Rightarrow> Inr (float E loaded))"
  unfolding load_weights_def run_defs by (auto split: sum.splits)

lemma sparsify_failed:
  assumes "sparsify E opt model = (t, Inl e)"
  shows "\<forall>ev \<in> set t. \<forall>b. ev \<noteq> Load_state_dict b"
  using assms unfolding sparsify_def truthy_def run_defs
  by (auto split: option.splits if_splits sum.splits prod.splits simp: Let_def)

lemma load_weights_trace:
  "fst (load_weights E model sd) = [Load_state_dict True]
   \<or> fst (load_weights E model sd) = [Load_state_dict True, Model_float]"
  unfolding load_weights_def run_defs by (auto split: sum.splits)

lemma load_model_cases:
  "(\<exists>t e. resolve E opt dev = (t, Inl e) \<and> load_model E opt dev = (t, Inl e))
   \<or> (\<exists>t1 m sd t2 e. resolve E opt dev = (t1, Inr (m, sd))
         \<and> sparsify E opt m = (t2, Inl e) \<and> load_model E opt dev = (t1 @ t2, Inl e))
   \<or> (\<exists>t1 m sd t2 m'. resolve E opt dev = (t1, Inr (m, sd))
         \<and> sparsify E opt m = (t2, Inr m')
         \<and> load_model E opt dev =
             (t1 @ t2 @ fst (load_weights E m' sd), snd (load_weights E m' sd)))"
proof (cases "resolve E opt dev")
  case (Pair t1 r)
  show ?thesis
  proof (cases r)
    case (Inl e)
    with Pair show ?thesis by (simp add: load_model_def bind_def)
  next
    case (Inr ms)
    obtain m sd where ms: "ms = (m, sd)" by (cases ms)
    obtain t2 r2 where sp: "sparsify E opt m = (t2, r2)" by (cases "sparsify E opt m")
    show ?thesis
    proof (cases r2)
      case (Inl e)
      with Pair Inr ms sp show ?thesis by (simp add: load_model_def bind_def)
    next
      case r2: (Inr m')
      with Pair Inr ms sp show ?thesis
        by (simp add: load_model_def bind_def split: prod.splits)
    qed
  qed
qed

text \<open>
  Claim C7. In a run with a recipe, wherever the weight load occurs in the trace of
  \<open>load_model\<close> it is the strict one, the two events right before it are the reading of the
  recipe and its application, by a manager whose quantization modifiers all have
  \<open>enable_on_initialize\<close> set, to the model that the resolution gave; the load is made into
  the model that this application returned, and what \<open>load_model\<close> returns is that load's
  result, cast. No event of the recipe comes after the load.
\<close>

theorem recipe_applied_before_strict_load:
  assumes "truthy (sparseml_recipe opt)"
      and "fst (load_model E opt dev) = pre @ Load_state_dict strict # post"
  shows "strict
       \<and> (\<exists>path manager pre' model sd model'.
             pre = pre' @ [From_yaml path, Manager_initialize (enable_all manager)]
             \<and> sparseml_recipe opt = Some path
             \<and> (\<forall>q \<in> set (quantization_modifiers (enable_all manager)).
                   enable_on_initialize q)
             \<and> (\<forall>ev \<in> set pre'. \<not> recipe_event ev)
             \<and> resolve E opt dev = (pre', Inr (model, sd))
             \<and> from_yaml E path = Inr manager
             \<and> initialize E (enable_all manager) model = Inr model'
             \<and> snd (load_model E opt dev) =
                 (case load_state_dict E model' sd True of
                    Inl e \<Rightarrow> Inl e
                  | Inr loaded \<Rightarrow> Inr (float E loaded)))
       \<and> (\<forall>ev \<in> set post. \<not> recipe_event ev)"
proof -
  consider
    (a) t e where "resolve E opt dev = (t, Inl e)" "load_model E opt dev = (t, Inl e)"
  | (b) t1 m sd t2 e where "resolve E opt dev = (t1, Inr (m, sd))"
        "sparsify E opt m = (t2, Inl e)" "load_model E opt dev = (t1 @ t2, Inl e)"
  | (c) t1 m sd t2 m' where "resolve E opt dev = (t1, Inr (m, sd))"
        "sparsify E opt m = (t2, Inr m')"
        "load_model E opt dev =
           (t1 @ t2 @ fst (load_weights E m' sd), snd (load_weights E m' sd))"
    using load_model_cases [of E opt dev] by blast
  then show ?thesis
  proof cases
    case a
    have "Load_state_dict strict \<in> set (fst (resolve E opt dev))"
      using assms(2) a by simp
    with resolve_trace [of E opt dev] show ?thesis by auto
  next
    case b
    have "Load_state_dict strict \<in> set t1 \<union> set t2"
      using assms(2) b by (metis fst_conv in_set_conv_decomp set_append)
    moreover have "Load_state_dict strict \<notin> set t1"
      using resolve_trace [of E opt dev] b(1) by auto
    ultimately show ?thesis using sparsify_failed [OF b(2)] by auto
  next
    case c
    obtain path manager where sp: "sparseml_recipe opt = Some path"
        "from_yaml E path = Inr manager"
        "initialize E (enable_all manager) m = Inr m'"
        "t2 = [From_yaml path, Manager_initialize (enable_all manager)]"
      using sparsify_ok_value [OF assms(1) c(2)] by blast
    have en: "\<forall>q \<in> set (quantization_modifiers (enable_all manager)). enable_on_initialize q"
      by (simp add: enable_all_def)
    have t1: "\<forall>ev \<in> set t1. \<not> recipe_event ev \<and> (\<forall>b. ev \<noteq> Load_state_dict b)"
      using resolve_ok_trace [OF c(1)] by auto
    have eq: "pre @ Load_state_dict strict # post =
        (t1 @ [From_yaml path, Manager_initialize (enable_all manager)])
          @ fst (load_weights E m' sd)"
      using assms(2) c(3) sp(4) by simp
    have notin: "\<forall>b. Load_state_dict b \<notin>
        set (t1 @ [From_yaml path, Manager_initialize (enable_all manager)])"
      using t1 by auto
    from load_weights_trace [of E m' sd]
    have shape: "pre = t1 @ [From_yaml path, Manager_initialize (enable_all manager)] \<and> strict
        \<and> (post = [] \<or> post = [Model_float])"
    proof
      assume lw: "fst (load_weights E m' sd) = [Load_state_dict True]"
      from eq [unfolded lw] notin show ?thesis
        by (auto simp: append_eq_append_conv2 append_eq_Cons_conv Cons_eq_append_conv)
    next
      assume lw: "fst (load_weights E m' sd) = [Load_state_dict True, Model_float]"
      from eq [unfolded lw] notin show ?thesis
        by (auto simp: append_eq_append_conv2 append_eq_Cons_conv Cons_eq_append_conv)
    qed
    have val: "snd (load_model E opt dev) =
                 (case load_state_dict E m' sd True of
                    Inl e \<Rightarrow> Inl e
                  | Inr loaded \<Rightarrow> Inr (float E loaded))"
      by (simp add: c(3) load_weights_value)
    have mid: "\<exists>path manager pre' model sd model'.
             pre = pre' @ [From_yaml path, Manager_initialize (enable_all manager)]
             \<and> sparseml_recipe opt = Some path
             \<and> (\<forall>q \<in> set (quantization_modifiers (enable_all manager)).
                   enable_on_initialize q)
             \<and> (\<forall>ev \<in> set pre'. \<not> recipe_event ev)
             \<and> resolve E opt dev = (pre', Inr (model, sd))
             \<and> from_yaml E path = Inr manager
             \<and> initialize E (enable_all manager) model = Inr model'
             \<and> snd (load_model E opt dev) =
                 (case load_state_dict E model' sd True of
                    Inl e \<Rightarrow> Inl e
                  | Inr loaded \<Rightarrow> Inr (float E loaded))"
      using shape sp en t1 c(1) val
      by (intro exI [of _ path] exI [of _ manager] exI [of _ t1] exI [of _ m] exI [of _ sd]
            exI [of _ m']) simp
    from shape mid show ?thesis by auto
  qed
qed

theorem recipe_applied_before_strict_load_witness:
  "truthy (sparseml_recipe (sample_opt\<lparr>sparseml_recipe := Some ''recipe.yaml''\<rparr>))
   \<and> fst (load_model sample_env (sample_opt\<lparr>sparseml_recipe := Some ''recipe.yaml''\<rparr>) ''cpu'')
     = [Download ''yolov3.pt'', Torch_load ''yolov3.pt'', Attempt_load ''yolov3.pt'',
        From_yaml ''recipe.yaml'',
        Manager_initialize \<lparr>recipe = ''recipe.yaml'',
          quantization_modifiers = [\<lparr>enable_on_initialize = True\<rparr>]\<rparr>]
       @ Load_state_dict True # [Model_float]
   \<and> \<not> recipe_event Model_float
   \<and> snd (load_model sample_env (sample_opt\<lparr>sparseml_recipe := Some ''recipe.yaml''\<rparr>) ''cpu'')
     = Inr sample_model"
  using recipe_applied_before_strict_load
    [of "sample_opt\<lparr>sparseml_recipe := Some ''recipe.yaml''\<rparr>" sample_env "''cpu''"
        "[Download ''yolov3.pt'', Torch_load ''yolov3.pt'', Attempt_load ''yolov3.pt'',
          From_yaml ''recipe.yaml'',
          Manager_initialize \<lparr>recipe = ''recipe.yaml'',
            quantization_modifiers = [\<lparr>enable_on_initialize = True\<rparr>]\<rparr>]"
        True "[Model_float]"]
  by (simp add: truthy_def load_defs run_defs sample_defs)

subsection \<open>The strict weight load in \<open>load_model\<close>\<close>

text \<open>
  Claim C5. \<open>load_model\<close> passes \<open>strict=True\<close> and does not handle the failure: when the
  checkpoint resolves and the recipe, if any, is applied, and one parameter of the model is
  absent from the state dict or has another shape there, \<open>load_model\<close> ends with
  \<open>WeightMismatchError\<close> at the load and returns no model, however many other parameters
  match.
\<close>

theorem strict_load_fails_on_mismatch:
  assumes "load_state_dict E = strict_load_state_dict (state_dict E) assign"
      and "resolve E opt dev = (t1, Inr (model, sd))"
      and "sparsify E opt model = (t2, Inr model')"
      and "(n, shape, v) \<in> set (state_dict E model')"
      and "map_of sd n = None \<or> (\<exists>shape' v'. map_of sd n = Some (shape', v') \<and> shape' \<noteq> shape)"
  shows "load_model E opt dev = (t1 @ t2 @ [Load_state_dict True], Inl WeightMismatchError)"
proof -
  have "list_ex (\<lambda>(n, shape, v).
                    case map_of sd n of
                      None \<Rightarrow> True
                    | Some (shape', v') \<Rightarrow> shape' \<noteq> shape)
                 (state_dict E model')"
    unfolding list_ex_iff using assms(4,5) by (intro bexI [of _ "(n, shape, v)"]) auto
  then have "load_state_dict E model' sd True = Inl WeightMismatchError"
    by (simp add: assms(1) strict_load_state_dict_def)
  then show ?thesis
    by (simp add: load_model_def load_weights_def bind_def call_def assms(2,3))
qed

theorem strict_load_fails_on_mismatch_witness:
  "load_model raw_env (sample_opt\<lparr>cfg := ''yolov3.yaml''\<rparr>) ''cpu'' =
     ([Download ''yolov3.pt'', Torch_load ''yolov3.pt'', Model_construct, Load_state_dict True],
      Inl WeightMismatchError)"
  using strict_load_fails_on_mismatch [of raw_env "\<lambda>m sd. m" "sample_opt\<lparr>cfg := ''yolov3.yaml''\<rparr>" "''cpu''"
      "[Download ''yolov3.pt'', Torch_load ''yolov3.pt'', Model_construct]" sample_model
      "[(''model.0.conv.weight'', [16, 3, 3, 3], ())]" "[]" sample_model
      "''model.1.conv.weight''" "[32, 16, 3, 3]" "()"]
  by (simp add: raw_env_def resolve_def sparsify_def run_defs sample_defs)

subsection \<open>The three export blocks\<close>

lemma torchscript_block:
  "\<exists>ok d. results (fst (torchscript_export E opt model img)) = [(TorchScript, ok, d)]
     \<and> snd (torchscript_export E opt model img) = Inr ()"
  unfolding torchscript_export_def torchscript_body_def try_except_def bind_def call_def
    print_def results_def
  by (auto split: sum.splits prod.splits simp: Let_def List.map_filter_simps)

lemma onnx_block:
  "\<exists>ok d t. fst (onnx_export_block E opt model img y) = Import_onnx # t
     \<and> results t = [(ONNX, ok, d)]
     \<and> snd (onnx_export_block E opt model img y) = Inr ()"
  unfolding onnx_export_block_def onnx_body_def try_except_def bind_def call_def print_def
    results_def ret_def
  by (auto split: sum.splits prod.splits simp: Let_def List.map_filter_simps)




subsection \<open>CoreML and the TorchScript trace\<close>

text \<open>
  Claim C2, as stated, fails. When the trace succeeds and saving it fails, the TorchScript
  export is reported as failed and the CoreML conversion is still invoked (and here succeeds).
  When the trace itself fails, the detail reported for CoreML is the \<open>NameError\<close> for the
  unbound name \<open>ts\<close>, not a dependency reason.
\<close>

theorem coreml_attempted_after_failed_torchscript_counterexample:
  "results (fst (export_sequence
      (sample_env\<lparr>ts_save := (\<lambda>ts file. Inl (Raised ''disk full'')),
                   import_coremltools := Inr ''4.0''\<rparr>)
      sample_opt sample_model [1, 3, 640, 640] Single_tensor))
    = [(TorchScript, False, ''disk full''), (ONNX, True, ''yolov3.onnx''),
       (CoreML, True, ''yolov3.mlmodel'')]
   \<and> Ct_convert \<in> set (fst (export_sequence
      (sample_env\<lparr>ts_save := (\<lambda>ts file. Inl (Raised ''disk full'')),
                   import_coremltools := Inr ''4.0''\<rparr>)
      sample_opt sample_model [1, 3, 640, 640] Single_tensor))
   \<and> results (fst (export_sequence
      (sample_env\<lparr>jit_trace := (\<lambda>m img. Inl (Raised ''trace failed'')),
                   import_coremltools := Inr ''4.0''\<rparr>)
      sample_opt sample_model [1, 3, 640, 640] Single_tensor)) ! 2
    = (CoreML, False, str (NameError ''ts''))"
  by (simp add: export_defs run_defs results_def List.map_filter_simps sample_defs)

lemma coreml_unbound:
  "coreml_export E opt img None =
     (case import_coremltools E of
        Inl e \<Rightarrow> ([Import_coremltools, Print (Export_failure CoreML (str e))], Inr ())
      | Inr v \<Rightarrow> ([Import_coremltools, Print (Starting CoreML v),
                   Print (Export_failure CoreML (str (NameError ''ts'')))], Inr ()))"
  by (simp add: coreml_export_def coreml_body_def try_except_def print_def run_defs
        split: sum.splits)

text \<open>
  Claim C2, amended. When \<^verbatim>\<open>torch.jit.trace\<close> fails, the CoreML block is still entered and
  coremltools is imported, but neither \<^verbatim>\<open>ct.ImageType\<close> nor \<^verbatim>\<open>ct.convert\<close> is called; CoreML
  is reported as failed, with the error of the import if the import fails and otherwise with
  the \<open>NameError\<close> for the unbound name \<open>ts\<close>.
\<close>

theorem coreml_not_converted_without_trace:
  assumes "jit_trace E model img = Inl e"
  shows "\<exists>t. fst (export_sequence E opt model img y) =
            t @ fst (coreml_export E opt img None)
          \<and> Ct_convert \<notin> set (fst (export_sequence E opt model img y))
          \<and> Image_type \<notin> set (fst (export_sequence E opt model img y))
          \<and> Import_coremltools \<in> set (fst (export_sequence E opt model img y))
          \<and> last (results (fst (export_sequence E opt model img y))) =
               (CoreML, False,
                case import_coremltools E of
                  Inl e' \<Rightarrow> str e'
                | Inr v \<Rightarrow> str (NameError ''ts''))"
proof -
  have tr: "traced E model img = None" using assms by (simp add: traced_def)
  obtain ok1 d1 where b1:
    "results (fst (torchscript_export E opt model img)) = [(TorchScript, ok1, d1)]"
    "snd (torchscript_export E opt model img) = Inr ()"
    using torchscript_block by blast
  obtain ok2 d2 t2 where b2:
    "fst (onnx_export_block E opt model img y) = Import_onnx # t2"
    "results t2 = [(ONNX, ok2, d2)]"
    "snd (onnx_export_block E opt model img y) = Inr ()"
    using onnx_block by blast
  have ts: "set (fst (torchscript_export E opt model img)) \<subseteq>
      {Print (Starting TorchScript (torch_version E)), Jit_trace,
       Print (Export_failure TorchScript (str e))}"
    using assms
    by (simp add: torchscript_export_def torchscript_body_def try_except_def print_def
          run_defs Let_def)
  have ox: "Ct_convert \<notin> set (fst (onnx_export_block E opt model img y))
      \<and> Image_type \<notin> set (fst (onnx_export_block E opt model img y))
      \<and> Import_coremltools \<notin> set (fst (onnx_export_block E opt model img y))"
    unfolding onnx_export_block_def onnx_body_def try_except_def print_def run_defs
    by (auto split: sum.splits prod.splits simp: Let_def)
  have seq: "fst (export_sequence E opt model img y) =
      (fst (torchscript_export E opt model img) @ fst (onnx_export_block E opt model img y))
      @ fst (coreml_export E opt img None)"
    unfolding export_sequence_def tr
    by (simp add: bind_ok [OF b1(2)] bind_ok [OF b2(3)])
  have cm_res: "results (fst (coreml_export E opt img None)) =
      [(CoreML, False,
        case import_coremltools E of Inl e' \<Rightarrow> str e' | Inr v \<Rightarrow> str (NameError ''ts''))]"
    by (simp add: coreml_unbound results_def List.map_filter_simps split: sum.splits)
  have cm_set: "Ct_convert \<notin> set (fst (coreml_export E opt img None))
      \<and> Image_type \<notin> set (fst (coreml_export E opt img None))
      \<and> Import_coremltools \<in> set (fst (coreml_export E opt img None))"
    by (simp add: coreml_unbound split: sum.splits)
  have res: "results (fst (export_sequence E opt model img y)) =
      [(TorchScript, ok1, d1), (ONNX, ok2, d2),
       (CoreML, False,
        case import_coremltools E of Inl e' \<Rightarrow> str e' | Inr v \<Rightarrow> str (NameError ''ts''))]"
    by (simp add: seq results_append b1 b2 cm_res)
  have no: "Ct_convert \<notin> set (fst (export_sequence E opt model img y))
      \<and> Image_type \<notin> set (fst (export_sequence E opt model img y))
      \<and> Import_coremltools \<in> set (fst (export_sequence E opt model img y))"
    using ts ox cm_set by (auto simp: seq)
  show ?thesis
    by (rule exI [of _ "fst (torchscript_export E opt model img)
              @ fst (onnx_export_block E opt model img y)"])
       (simp add: no res, simp add: seq)
qed

theorem coreml_not_converted_without_trace_witness:
  "jit_trace (sample_env\<lparr>jit_trace := (\<lambda>m img. Inl (Raised ''trace failed'')),
                         import_coremltools := Inr ''4.0''\<rparr>) sample_model [1, 3, 640, 640]
     = Inl (Raised ''trace failed'')
   \<and> Ct_convert \<notin> set (fst (export_sequence
        (sample_env\<lparr>jit_trace := (\<lambda>m img. Inl (Raised ''trace failed'')),
                     import_coremltools := Inr ''4.0''\<rparr>)
        sample_opt sample_model [1, 3, 640, 640] Single_tensor))
   \<and> last (results (fst (export_sequence
        (sample_env\<lparr>jit_trace := (\<lambda>m img. Inl (Raised ''trace failed'')),
                     import_coremltools := Inr ''4.0''\<rparr>)
        sample_opt sample_model [1, 3, 640, 640] Single_tensor)))
      = (CoreML, False, str (NameError ''ts''))"
  using coreml_not_converted_without_trace
    [of "sample_env\<lparr>jit_trace := (\<lambda>m img. Inl (Raised ''trace failed'')),
                     import_coremltools := Inr ''4.0''\<rparr>"
        sample_model "[1, 3, 640, 640]" "Raised ''trace failed''" sample_opt Single_tensor]
  by (simp add: sample_defs)

subsection \<open>The names of the standard ONNX export\<close>

text \<open>
  Claim C3, as stated, fails: for a dry run that returned a pair the output is named
  \<open>output\<close>, not \<open>classes\<close> and \<open>boxes\<close>.
\<close>

theorem onnx_pair_named_output_counterexample:
  "fst (onnx_export_block sample_env sample_opt sample_model [1, 3, 640, 640]
          Classes_boxes_pair) ! 2
   = Onnx_export \<lparr>filename = ''yolov3.onnx'', verbose = False, opset_version = 12,
       input_names = [''images''], output_names = [''output''], dynamic_axes = None\<rparr>"
  by (simp add: export_defs run_defs sample_defs)

text \<open>
  Claim C3, amended. In the standard path, once onnx is imported, \<^verbatim>\<open>torch.onnx.export\<close> is
  called once, with the input named \<open>images\<close>; the output is named \<open>output\<close> whenever the
  dry run returned a value, a single tensor and a pair alike, and \<open>classes\<close>, \<open>boxes\<close> only
  when the dry run returned \<open>None\<close>.
\<close>

theorem onnx_standard_names:
  assumes "\<not> truthy (sparseml_recipe opt)" and "import_onnx E = Inr v"
  shows "\<exists>args t. fst (onnx_export_block E opt model img y) =
                    [Import_onnx, Print (Starting ONNX v), Onnx_export args] @ t
          \<and> (\<forall>a. Onnx_export a \<notin> set t)
          \<and> input_names args = [''images'']
          \<and> output_names args =
              (case y of
                 None_value \<Rightarrow> [''classes'', ''boxes'']
               | Single_tensor \<Rightarrow> [''output'']
               | Classes_boxes_pair \<Rightarrow> [''output''])"
  using assms
  unfolding onnx_export_block_def onnx_body_def try_except_def print_def run_defs
    standard_args_def
  by (cases y) (auto split: sum.splits prod.splits simp: Let_def)

theorem onnx_standard_names_witness:
  "\<not> truthy (sparseml_recipe sample_opt)
   \<and> import_onnx sample_env = Inr ''1.8.0''
   \<and> fst (onnx_export_block sample_env sample_opt sample_model [1, 3, 640, 640] None_value) ! 2
     = Onnx_export \<lparr>filename = ''yolov3.onnx'', verbose = False, opset_version = 12,
         input_names = [''images''], output_names = [''classes'', ''boxes''],
         dynamic_axes = None\<rparr>"
  using onnx_standard_names [of sample_opt sample_env "''1.8.0''" sample_model "[1, 3, 640, 640]" None_value]
  by (simp add: export_defs run_defs sample_defs)

subsection \<open>The export configuration\<close>

lemma children_update_modules:
  "children (update_modules m) = map (map_prod id update_modules) (children m)"
  by (cases m) simp

lemma node_at_update_modules:
  "node_at (update_modules m) p = map_option update_modules (node_at m p)"
  by (induction p arbitrary: m) (simp_all add: children_update_modules)

lemma label_update_modules:
  "cls (update_modules m) = assign_activation (cls m)"
  "non_persistent_buffers_set (update_modules m) = {}"
  "export (update_modules m) = export m"
  "attrs (update_modules m) = attrs m"
  "map fst (children (update_modules m)) = map fst (children m)"
  by (cases m; simp)+

lemma position_names: "position n (map (map_prod id g) ch) = position n ch"
  by (induction ch) auto

lemma assign_child_update:
  "map_of ch n = Some c \<Longrightarrow>
     position n ch < length ch \<and> ch ! position n ch = (n, c)
     \<and> assign_child n v ch = ch[position n ch := (n, v)]"
  by (induction ch) (auto split: if_splits)

lemma butlast_snoc_update: "ch \<noteq> [] \<Longrightarrow> butlast ch @ [x] = ch[length ch - 1 := x]"
  by (cases ch rule: rev_cases) simp_all

lemma label_set_export:
  "cls (set_export v m) = cls m"
  "non_persistent_buffers_set (set_export v m) = non_persistent_buffers_set m"
  "export (set_export v m) = Some v"
  "attrs (set_export v m) = attrs m"
  "children (set_export v m) = children m"
  by (cases m; simp)+

lemma node_at_set_export_below:
  "r \<noteq> [] \<Longrightarrow> node_at (set_export v m) r = node_at m r"
  by (cases r) (simp_all add: label_set_export)

lemma set_export_frame:
  assumes ga: "getattr m1 ''model'' = Inr seq"
      and se: "set_last_export v seq = Inr seq'"
      and m': "m' = Module (cls m1) (non_persistent_buffers_set m1) (export m1) (attrs m1)
                      (assign_child ''model'' seq' (children m1))"
  shows "(node_at m1 p = None \<longrightarrow> node_at m' p = None)
       \<and> (\<forall>n. node_at m1 p = Some n \<longrightarrow>
            (\<exists>n'. node_at m' p = Some n'
               \<and> same_but_export (if Some p = terminal m1 then Some v else export n) n n'))"
proof -
  define ch where "ch = children m1"
  define i0 where "i0 = position ''model'' ch"
  define ch' where "ch' = children seq"
  define l where "l = length ch' - 1"
  from ga have mo: "map_of ch ''model'' = Some seq"
    by (auto simp: getattr_def ch_def split: option.splits)
  from assign_child_update [OF mo, of seq']
  have i0: "i0 < length ch" "ch ! i0 = (''model'', seq)"
    and ac: "assign_child ''model'' seq' ch = ch[i0 := (''model'', seq')]"
    by (simp_all add: i0_def)
  from se have ne: "ch' \<noteq> []"
    and seq': "seq' = Module (cls seq) (non_persistent_buffers_set seq) (export seq) (attrs seq)
                  (ch'[l := (fst (last ch'), set_export v (snd (last ch')))])"
    by (cases seq; auto simp: set_last_export_def ch'_def l_def butlast_snoc_update
          split: if_splits)+
  have l: "l < length ch'" "last ch' = ch' ! l"
    using ne by (simp_all add: l_def last_conv_nth)
  have tm: "terminal m1 = Some [i0, l]"
    using i0 ne
    by (simp add: terminal_def Let_def ch_def [symmetric] i0_def [symmetric]
          l_def ch'_def)
  have cm': "children m' = ch[i0 := (''model'', seq')]"
    by (simp add: m' ch_def [symmetric] ac)
  have cs': "children seq' = ch'[l := (fst (ch' ! l), set_export v (snd (ch' ! l)))]"
    by (simp add: seq' l(2))
  show ?thesis
  proof (cases p)
    case Nil
    have "map fst (ch[i0 := (''model'', seq')]) = map fst ch"
      using i0 by (simp add: map_update) (metis fst_conv list_update_id map_update)
    then show ?thesis
      by (simp add: Nil tm same_but_export_def cm' ch_def [symmetric]) (simp add: m')
  next
    case (Cons i q)
    show ?thesis
    proof (cases "i = i0")
      case False
      then show ?thesis
        by (cases "i < length ch")
           (auto simp: Cons tm cm' ch_def [symmetric] same_but_export_def)
    next
      case True
      have A: "node_at m1 p = node_at seq q" and B: "node_at m' p = node_at seq' q"
        using i0 by (simp_all add: Cons True cm' ch_def [symmetric])
      have C: "(Some p = terminal m1) = (q = [l])"
        by (simp add: Cons True tm)
      have inner: "(node_at seq q = None \<longrightarrow> node_at seq' q = None)
         \<and> (\<forall>n. node_at seq q = Some n \<longrightarrow>
              (\<exists>n'. node_at seq' q = Some n'
                 \<and> same_but_export (if q = [l] then Some v else export n) n n'))"
      proof (cases q)
        case Nil
        have "map fst (ch'[l := (fst (ch' ! l), set_export v (snd (ch' ! l)))]) = map fst ch'"
          using l by (simp add: map_update) (metis list_update_id map_update)
        then show ?thesis
          by (simp add: Nil same_but_export_def cs' ch'_def [symmetric]) (simp add: seq')
      next
        case q: (Cons j r)
        show ?thesis
        proof (cases "j = l")
          case False
          then show ?thesis
            by (cases "j < length ch'")
               (auto simp: q cs' ch'_def [symmetric] same_but_export_def)
        next
          case jl: True
          show ?thesis
          proof (cases r)
            case Nil
            then show ?thesis
              using l by (simp add: q jl cs' ch'_def [symmetric]
                    same_but_export_def label_set_export)
          next
            case r: (Cons k s)
            then show ?thesis
              using l
              by (cases "node_at (snd (ch' ! l)) r")
                 (auto simp: q jl cs' ch'_def [symmetric] same_but_export_def
                    label_set_export split: if_splits)
          qed
        qed
      qed
      then show ?thesis by (simp only: A B C)
    qed
  qed
qed

lemma assign_activation_cases:
  "(c = Conv NN_Hardswish \<longrightarrow> assign_activation c = Conv Hardswish)
   \<and> (c = Conv NN_SiLU \<longrightarrow> assign_activation c = Conv SiLU)
   \<and> (c \<noteq> Conv NN_Hardswish \<and> c \<noteq> Conv NN_SiLU \<longrightarrow> assign_activation c = c)"
  by (cases c) auto

lemma terminal_update_modules: "terminal (update_modules m) = terminal m"
proof -
  have "position ''model'' (children (update_modules m)) = position ''model'' (children m)"
    by (simp add: children_update_modules position_names)
  then show ?thesis
    by (simp add: terminal_def Let_def children_update_modules cong: conj_cong)
qed

text \<open>
  Claim C10. When lines 87 to 96 succeed, the model keeps its shape: no module is added or
  removed, and every module keeps the names of its submodules and everything it holds besides
  the three things the script writes. Every module's \<^verbatim>\<open>_non_persistent_buffers_set\<close> is
  empty; a \<open>Conv\<close> whose activation is \<^verbatim>\<open>nn.Hardswish\<close> or \<^verbatim>\<open>nn.SiLU\<close> has the export-friendly
  one instead and every other class and activation is as it was; \<open>export\<close> is the negation of
  \<open>grid\<close> on \<^verbatim>\<open>model.model[-1]\<close> and as it was everywhere else.
\<close>

theorem update_model_frame:
  assumes "update_model g model = Inr model'"
  shows "(\<forall>p. node_at model p = None \<longrightarrow> node_at model' p = None)
       \<and> (\<forall>p m. node_at model p = Some m \<longrightarrow>
            (\<exists>m'. node_at model' p = Some m'
               \<and> non_persistent_buffers_set m' = {}
               \<and> (cls m = Conv NN_Hardswish \<longrightarrow> cls m' = Conv Hardswish)
               \<and> (cls m = Conv NN_SiLU \<longrightarrow> cls m' = Conv SiLU)
               \<and> (cls m \<noteq> Conv NN_Hardswish \<and> cls m \<noteq> Conv NN_SiLU \<longrightarrow> cls m' = cls m)
               \<and> export m' = (if Some p = terminal model then Some (\<not> g) else export m)
               \<and> attrs m' = attrs m
               \<and> map fst (children m') = map fst (children m)))"
proof -
  define m1 where "m1 = update_modules model"
  from assms obtain seq seq' where
    ga: "getattr m1 ''model'' = Inr seq" and
    se: "set_last_export (\<not> g) seq = Inr seq'" and
    m': "model' = Module (cls m1) (non_persistent_buffers_set m1) (export m1) (attrs m1)
                    (assign_child ''model'' seq' (children m1))"
    by (auto simp: update_model_def Let_def m1_def split: sum.splits)
  note s2 = set_export_frame [OF ga se m']
  have tm: "terminal m1 = terminal model"
    by (simp add: m1_def terminal_update_modules)
  have n1: "node_at m1 p = map_option update_modules (node_at model p)" for p
    by (simp add: m1_def node_at_update_modules)
  show ?thesis
  proof (intro conjI allI impI)
    fix p assume "node_at model p = None"
    then show "node_at model' p = None" using s2 [of p] by (simp add: n1)
  next
    fix p m assume "node_at model p = Some m"
    then have "node_at m1 p = Some (update_modules m)" by (simp add: n1)
    with s2 [of p] obtain n' where n': "node_at model' p = Some n'"
      "same_but_export (if Some p = terminal m1 then Some (\<not> g) else export (update_modules m))
         (update_modules m) n'"
      by blast
    show "\<exists>m'. node_at model' p = Some m'
               \<and> non_persistent_buffers_set m' = {}
               \<and> (cls m = Conv NN_Hardswish \<longrightarrow> cls m' = Conv Hardswish)
               \<and> (cls m = Conv NN_SiLU \<longrightarrow> cls m' = Conv SiLU)
               \<and> (cls m \<noteq> Conv NN_Hardswish \<and> cls m \<noteq> Conv NN_SiLU \<longrightarrow> cls m' = cls m)
               \<and> export m' = (if Some p = terminal model then Some (\<not> g) else export m)
               \<and> attrs m' = attrs m
               \<and> map fst (children m') = map fst (children m)"
      using n' assign_activation_cases [of "cls m"]
      by (intro exI [of _ n']) (simp add: same_but_export_def label_update_modules tm)
  qed
qed

theorem update_model_frame_witness:
  "update_model False sample_model =
     Inr (Module (Other_class ''Model'') {} None ()
       [(''model'',
         Module (Other_class ''Sequential'') {} None ()
           [(''0'', Module (Conv Hardswish) {} None () []),
            (''1'', Module (Conv (Other_activation ''LeakyReLU'')) {} None () []),
            (''2'', Module (Other_class ''Detect'') {} (Some True) () [])])])
   \<and> terminal sample_model = Some [0, 2]
   \<and> node_at sample_model [0, 2] = Some (Module (Other_class ''Detect'') {} (Some False) () [])"
  using update_model_frame [of False sample_model
      "Module (Other_class ''Model'') {} None ()
       [(''model'',
         Module (Other_class ''Sequential'') {} None ()
           [(''0'', Module (Conv Hardswish) {} None () []),
            (''1'', Module (Conv (Other_activation ''LeakyReLU'')) {} None () []),
            (''2'', Module (Other_class ''Detect'') {} (Some True) () [])])]"]
  by (simp add: update_model_def getattr_def set_last_export_def terminal_def
        sample_model_def Let_def)

subsection \<open>Artifact paths\<close>

text \<open>
  Where \<open>.pt\<close> occurs in the weights path only as its last three characters, the
  replacement is the substitution of the extension.
\<close>

lemma replace_from_trailing:
  assumes "old \<noteq> []"
      and "\<forall>i < length stem. take (length old) (drop i (stem @ old)) \<noteq> old"
  shows "replace_from old new (stem @ old) = stem @ new"
  using assms
proof (induction stem)
  case Nil
  then show ?case by (cases old) simp_all
next
  case (Cons c st)
  have 0: "take (length old) ((c # st) @ old) \<noteq> old"
    using Cons.prems(2) by (metis drop0 length_greater_0_conv list.discI)
  have "\<forall>i < length st. take (length old) (drop i (st @ old)) \<noteq> old"
  proof (intro allI impI)
    fix i assume "i < length st"
    then have "Suc i < length (c # st)" by simp
    with Cons.prems(2) have "take (length old) (drop (Suc i) ((c # st) @ old)) \<noteq> old"
      by blast
    then show "take (length old) (drop i (st @ old)) \<noteq> old" by simp
  qed
  with Cons.IH Cons.prems(1) have "replace_from old new (st @ old) = st @ new" by blast
  with 0 show ?case by simp
qed

lemma artifact_path_trailing:
  assumes "\<forall>i < length stem. take (length ''.pt'') (drop i (stem @ ''.pt'')) \<noteq> ''.pt''"
  shows "replace (stem @ ''.pt'') ''.pt'' ext = stem @ ext"
proof -
  have "replace_from ''.pt'' ext (stem @ ''.pt'') = stem @ ext"
    by (rule replace_from_trailing [OF _ assms]) simp
  then show ?thesis by (simp add: replace_def)
qed

text \<open>
  Claim C8. The artifact paths are \<^verbatim>\<open>opt.weights.replace('.pt', ...)\<close>, and \<open>replace\<close> rewrites
  every occurrence of \<open>.pt\<close>: for the weights path \<open>weights.pt/yolov3.pt\<close> the directory part
  is rewritten too, and for a weights path without \<open>.pt\<close>, such as \<open>model.ckpt\<close>, nothing is
  rewritten, so the TorchScript artifact is written to the weights path itself.
\<close>

theorem artifact_path_replaces_every_pt:
  "replace ''weights.pt/yolov3.pt'' ''.pt'' ''.torchscript.pt''
     = ''weights.torchscript.pt/yolov3.torchscript.pt''
   \<and> replace ''weights.pt/yolov3.pt'' ''.pt'' ''.onnx'' = ''weights.onnx/yolov3.onnx''
   \<and> replace ''weights.pt/yolov3.pt'' ''.pt'' ''.mlmodel'' = ''weights.mlmodel/yolov3.mlmodel''
   \<and> replace ''model.ckpt'' ''.pt'' ''.torchscript.pt'' = ''model.ckpt''"
  by (simp add: replace_def)

subsection \<open>Image size\<close>

lemma resolve_img_size: "resolve E (opt\<lparr>img_size := xs\<rparr>) dev = resolve E opt dev"
  by (simp add: resolve_def Let_def cong del: if_weak_cong)

lemma sparsify_img_size: "sparsify E (opt\<lparr>img_size := xs\<rparr>) model = sparsify E opt model"
  by (simp add: sparsify_def Let_def split: option.splits)

lemma load_model_img_size:
  "load_model E (opt\<lparr>img_size := xs\<rparr>) dev = load_model E opt dev"
  by (simp add: load_model_def resolve_img_size sparsify_img_size)

lemma main_prefix:
  assumes "select_device E (device opt) = Inr dev"
      and "load_model E opt dev = (t, Inr model)"
      and "names E model = Inr labels"
      and "max_stride E model = Inr gs"
  shows "main E opt =
     (Select_device (device opt) # t
        @ fst (bind (verify_sizes (check_img_size E) gs (expand (img_size opt)))
                 (after_sizes E opt dev model)),
      snd (bind (verify_sizes (check_img_size E) gs (expand (img_size opt)))
                 (after_sizes E opt dev model)))"
proof -
  have "after_sizes E opt dev model =
     (\<lambda>sizes.
     bind (call (Zeros (batch_size opt # 3 # sizes)) (zeros E (batch_size opt # 3 # sizes) dev))
       (\<lambda>_.
     bind ([], update_model (grid opt) model) (\<lambda>model.
     bind (call Dry_run (forward E model (batch_size opt # 3 # sizes))) (\<lambda>y.
     bind (export_sequence E (opt\<lparr>img_size := sizes\<rparr>) model
             (batch_size opt # 3 # sizes) y) (\<lambda>_.
     print Export_complete)))))"
    by (rule ext) (simp add: after_sizes_def)
  then show ?thesis
    using assms
    by (simp add: main_def Let_def load_model_img_size bind_Inr call_def)
qed

lemma after_sizes_head:
  "fst (after_sizes E opt dev model sizes) =
     Zeros (batch_size opt # 3 # sizes) # tl (fst (after_sizes E opt dev model sizes))"
  by (simp add: after_sizes_def call_def fst_bind_Cons)

text \<open>
  Claim C9. A single image size \<open>n\<close> becomes the pair \<open>(n, n)\<close> and two sizes stay as they
  are, and the expansion comes before the check of line 81: once the device is selected and
  the model loaded, the script run on \<open>[n]\<close> calls \<open>check_img_size\<close> twice, on \<open>n\<close> and on
  \<open>n\<close>, and builds the sample input from the two results (or ends with the error of the first
  call); run on \<open>[h, w]\<close> it calls it on \<open>h\<close> and on \<open>w\<close>.
\<close>

theorem img_size_expanded_before_validation:
  assumes "select_device E (device opt) = Inr dev"
      and "load_model E opt dev = (t, Inr model)"
      and "names E model = Inr labels"
      and "max_stride E model = Inr gs"
  shows "expand [n] = [n, n]
       \<and> expand [h, w] = [h, w]
       \<and> (\<forall>v. check_img_size E n gs = Inr v \<longrightarrow>
            (\<exists>rest r. main E (opt\<lparr>img_size := [n]\<rparr>) =
               (Select_device (device opt) # t
                  @ [Check_img_size n gs, Check_img_size n gs,
                     Zeros [batch_size opt, 3, v, v]] @ rest, r)))
       \<and> (\<forall>e. check_img_size E n gs = Inl e \<longrightarrow>
             main E (opt\<lparr>img_size := [n]\<rparr>) =
               (Select_device (device opt) # t @ [Check_img_size n gs], Inl e))
       \<and> (\<forall>vh vw. check_img_size E h gs = Inr vh \<and> check_img_size E w gs = Inr vw \<longrightarrow>
            (\<exists>rest r. main E (opt\<lparr>img_size := [h, w]\<rparr>) =
               (Select_device (device opt) # t
                  @ [Check_img_size h gs, Check_img_size w gs,
                     Zeros [batch_size opt, 3, vh, vw]] @ rest, r)))"
proof -
  have e1: "expand [n] = [n, n]" and e2: "expand [h, w] = [h, w]"
    by (simp_all add: expand_def numeral_2_eq_2)
  have lm: "load_model E (opt\<lparr>img_size := xs\<rparr>) dev = (t, Inr model)" for xs
    by (simp add: load_model_img_size assms(2))
  note m1 = main_prefix [of E "opt\<lparr>img_size := [n]\<rparr>" dev t model labels gs,
      simplified, OF assms(1) lm assms(3,4), unfolded e1]
  note m2 = main_prefix [of E "opt\<lparr>img_size := [h, w]\<rparr>" dev t model labels gs,
      simplified, OF assms(1) lm assms(3,4), unfolded e2]
  have c3: "\<exists>rest r. main E (opt\<lparr>img_size := [n]\<rparr>) =
               (Select_device (device opt) # t
                  @ [Check_img_size n gs, Check_img_size n gs,
                     Zeros [batch_size opt, 3, v, v]] @ rest, r)"
    if "check_img_size E n gs = Inr v" for v
    unfolding m1 using that
      after_sizes_head [of E "opt\<lparr>img_size := [n]\<rparr>" dev model "[v, v]"]
    by (simp add: bind_Inr call_def ret_def) blast
  have c4: "main E (opt\<lparr>img_size := [n]\<rparr>) =
               (Select_device (device opt) # t @ [Check_img_size n gs], Inl e)"
    if "check_img_size E n gs = Inl e" for e
    unfolding m1 using that by (simp add: bind_Inl call_def)
  have c5: "\<exists>rest r. main E (opt\<lparr>img_size := [h, w]\<rparr>) =
               (Select_device (device opt) # t
                  @ [Check_img_size h gs, Check_img_size w gs,
                     Zeros [batch_size opt, 3, vh, vw]] @ rest, r)"
    if "check_img_size E h gs = Inr vh \<and> check_img_size E w gs = Inr vw" for vh vw
    unfolding m2 using that
      after_sizes_head [of E "opt\<lparr>img_size := [h, w]\<rparr>" dev model "[vh, vw]"]
    by (simp add: bind_Inr call_def ret_def) blast
  from e1 e2 c3 c4 c5 show ?thesis by simp
qed

theorem img_size_expanded_before_validation_witness:
  "select_device sample_env (device sample_opt) = Inr ''cpu''
   \<and> load_model sample_env sample_opt ''cpu'' =
       ([Download ''yolov3.pt'', Torch_load ''yolov3.pt'', Attempt_load ''yolov3.pt'',
         Load_state_dict True, Model_float], Inr sample_model)
   \<and> check_img_size sample_env 416 32 = Inr 416
   \<and> take 9 (fst (main sample_env (sample_opt\<lparr>img_size := [416]\<rparr>))) =
       [Select_device ''cpu'', Download ''yolov3.pt'', Torch_load ''yolov3.pt'',
        Attempt_load ''yolov3.pt'', Load_state_dict True, Model_float,
        Check_img_size 416 32, Check_img_size 416 32, Zeros [1, 3, 416, 416]]"
  using img_size_expanded_before_validation
    [of sample_env sample_opt "''cpu''"
        "[Download ''yolov3.pt'', Torch_load ''yolov3.pt'', Attempt_load ''yolov3.pt'',
          Load_state_dict True, Model_float]"
        sample_model "[''person'', ''bicycle'', ''car'']" 32 416 320 192]
  by (simp add: load_defs run_defs sample_defs) (auto simp: sample_defs)

end
